theory Spec2Isabelle
  imports Complex_Main
begin

section \<open>Steady-state balance of the aircraft air-conditioning loop\<close>

text \<open>
  The development embeds \<^verbatim>\<open>airplane_ECS_modelling.py\<close>. Python floats are read as
  exact real numbers, so the statements about \<open>ModelECS\<close> are statements of exact
  arithmetic. Where a property turns on rounding, the routine is modelled a second time,
  as \<open>ModelECS_fl\<close>, with every arithmetic result rounded to binary64.
\<close>

subsection \<open>Constants and inputs\<close>

definition c :: real where
  \<comment> \<open>air specific heat J/kg K\<close>
  "c = 1000"

definition l :: real where
  \<comment> \<open>latent heat J/kg\<close>
  "l = 2496000"

text \<open>The ten positional parameters of \<^verbatim>\<open>ModelECS\<close>, in the order of the signature.\<close>

record ecs_input =
  m_fresh :: real
  \<alpha> :: real
  \<theta>S :: real
  \<theta>Isp :: real
  \<phi>Isp :: real
  \<theta>_turb :: real
  \<phi>_turb :: real
  \<theta>_ext :: real
  Qsa :: real
  Qla :: real

datatype error = ZeroDivisionError | LinAlgError

subsection \<open>Dense linear algebra\<close>

type_synonym vec = "real list"
type_synonym mat = "real list list"

definition zeros :: "nat \<Rightarrow> vec" where
  "zeros n = replicate n 0"

definition zeros2 :: "nat \<Rightarrow> nat \<Rightarrow> mat" where
  "zeros2 n k = replicate n (zeros k)"

definition set2 :: "mat \<Rightarrow> nat \<times> nat \<Rightarrow> real \<Rightarrow> mat" where
  \<comment> \<open>the assignment \<^verbatim>\<open>A[i, j] = v\<close>\<close>
  "set2 A ij v = (case ij of (i, j) \<Rightarrow> A[i := (A ! i)[j := v]])"

definition dot :: "vec \<Rightarrow> vec \<Rightarrow> real" where
  "dot xs ys = sum_list (map2 (*) xs ys)"

definition mat_vec :: "mat \<Rightarrow> vec \<Rightarrow> vec" where
  "mat_vec A x = map (\<lambda>row. dot row x) A"

text \<open>
  \<^verbatim>\<open>np.linalg.solve\<close> is LAPACK's \<^verbatim>\<open>gesv\<close>: elimination with partial pivoting (the
  first row of largest absolute value in the column is exchanged with the current one),
  then back substitution; a zero pivot raises \<^verbatim>\<open>LinAlgError\<close>. An equation is a row of
  coefficients with its constant term.
\<close>

type_synonym eqn = "vec \<times> real"

fun idamax :: "real list \<Rightarrow> nat" where
  "idamax [] = 0"
| "idamax (x # xs) =
     (let j = idamax xs in if xs = [] \<or> \<bar>xs ! j\<bar> \<le> \<bar>x\<bar> then 0 else Suc j)"

definition swap_rows :: "nat \<Rightarrow> nat \<Rightarrow> 'a list \<Rightarrow> 'a list" where
  "swap_rows i j xs = xs[i := xs ! j, j := xs ! i]"

definition lead :: "eqn \<Rightarrow> real" where
  "lead e = hd (fst e)"

definition pivot_rows :: "eqn list \<Rightarrow> eqn list" where
  "pivot_rows es = swap_rows 0 (idamax (map lead es)) es"

definition eliminate :: "eqn \<Rightarrow> eqn \<Rightarrow> eqn" where
  "eliminate p e =
     (let f = lead e / lead p
      in (map2 (\<lambda>a b. a - f * b) (tl (fst e)) (tl (fst p)), snd e - f * snd p))"

function gauss :: "eqn list \<Rightarrow> vec option" where
  "gauss [] = Some []"
| "gauss (e # es) =
     (case pivot_rows (e # es) of
        [] \<Rightarrow> None
      | p # rest \<Rightarrow>
          if lead p = 0 then None
          else (case gauss (map (eliminate p) rest) of
                  None \<Rightarrow> None
                | Some ys \<Rightarrow> Some ((snd p - dot (tl (fst p)) ys) / lead p # ys)))"
  by pat_completeness auto
termination
proof (relation "measure length")
  show "wf (measure length)" by simp
next
  fix e :: eqn and es p rest
  assume "pivot_rows (e # es) = p # rest"
  then have "length (p # rest) = length (pivot_rows (e # es))"
    by simp
  also have "\<dots> = length (e # es)"
    by (simp only: pivot_rows_def swap_rows_def length_list_update)
  finally have "length (p # rest) = length (e # es)" .
  then show "(map (eliminate p) rest, e # es) \<in> measure length"
    by simp
qed

definition solve :: "mat \<Rightarrow> vec \<Rightarrow> error + vec" where
  "solve A b =
     (if (\<exists>row \<in> set A. length row \<noteq> length A) \<or> length b \<noteq> length A then Inl LinAlgError
      else case gauss (zip A b) of None \<Rightarrow> Inl LinAlgError | Some x \<Rightarrow> Inr x)"

subsection \<open>The balance solver\<close>

text \<open>
  The derived scalars \<^verbatim>\<open>m\<close>, \<^verbatim>\<open>QsZ\<close> and \<^verbatim>\<open>UA\<close>. Python raises
  \<^verbatim>\<open>ZeroDivisionError\<close> at a float division whose divisor is zero; nothing is checked
  before the two divisions.
\<close>

definition derived :: "ecs_input \<Rightarrow> error + real \<times> real \<times> real" where
  "derived inp =
     (if \<alpha> inp = 0 then Inl ZeroDivisionError
      else let m = m_fresh inp / \<alpha> inp;
               QsZ = - m * c * (\<theta>S inp - \<theta>Isp inp)
           in if \<theta>_ext inp - \<theta>Isp inp = 0 then Inl ZeroDivisionError
              else Inr (m, QsZ, (QsZ - Qsa inp) / (\<theta>_ext inp - \<theta>Isp inp)))"

text \<open>
  The coefficient matrix and the vector of inputs: the assignments of the source, in its
  order, on arrays of zeros. The humidity ratios \<^verbatim>\<open>w_turb\<close> and \<^verbatim>\<open>wIsp\<close> come from
  the psychrometric collaborator and are parameters here.
\<close>

definition coefficients :: "ecs_input \<Rightarrow> real \<Rightarrow> real \<Rightarrow> real \<Rightarrow> real \<Rightarrow> mat" where
  "coefficients inp m UA Kt Kw =
     foldl (\<lambda>A (ij, v). set2 A ij v) (zeros2 12 12)
       [((0, 0), m * c), ((0, 6), - (1 - \<alpha> inp) * m * c),
        ((1, 1), m * l), ((1, 7), - (1 - \<alpha> inp) * m * l),
        ((2, 0), m * c), ((2, 2), - m * c), ((2, 8), 1),
        ((3, 1), m * l), ((3, 3), - m * l),
        ((4, 2), m * c), ((4, 4), - m * c),
        ((5, 3), m * l), ((5, 5), - m * l), ((5, 9), 1),
        ((6, 4), m * c), ((6, 6), - m * c), ((6, 10), 1),
        ((7, 5), m * l), ((7, 7), - m * l), ((7, 11), 1),
        ((8, 6), UA), ((8, 10), 1),
        ((9, 7), 0), ((9, 11), 1),
        ((10, 6), Kt), ((10, 8), 1),
        ((11, 7), Kw), ((11, 9), 1)]"

definition constants ::
  "ecs_input \<Rightarrow> real \<Rightarrow> real \<Rightarrow> real \<Rightarrow> real \<Rightarrow> real \<Rightarrow> real \<Rightarrow> vec" where
  "constants inp m UA Kt Kw w_turb wIsp =
     foldl (\<lambda>b (i, v). b[i := v]) (zeros 12)
       [(0, \<alpha> inp * m * c * \<theta>_turb inp),
        (1, \<alpha> inp * m * l * w_turb),
        (2, 0), (3, 0), (4, 0), (5, 0), (6, 0), (7, 0),
        (8, UA * \<theta>_ext inp + Qsa inp),
        (9, Qla inp),
        (10, Kt * \<theta>Isp inp),
        (11, Kw * wIsp)]"

text \<open>
  What the routine does besides returning: one call of the chart collaborator and five
  calls of \<^verbatim>\<open>print\<close>, recorded with the numbers handed over (the text layout of the
  tables is not modelled).
\<close>

datatype event =
    ChartA vec vec "int list list"
  | Print_blank
  | Print_points "(real \<times> real) list"
  | Print_duties "(string \<times> real) list"
  | Print_UA real

definition slice :: "'a list \<Rightarrow> nat \<Rightarrow> nat \<Rightarrow> nat \<Rightarrow> 'a list" where
  \<comment> \<open>\<^verbatim>\<open>xs[a:b:k]\<close> for non-negative bounds and a positive step\<close>
  "slice xs a b k =
     map (\<lambda>i. xs ! i) (filter (\<lambda>i. (i - a) mod k = 0) [a ..< min b (length xs)])"

definition py_round :: "real \<Rightarrow> real" where
  \<comment> \<open>\<^verbatim>\<open>round(x, 0)\<close>: to the nearest whole number, a tie to the even one\<close>
  "py_round x =
     (let f = \<lfloor>x\<rfloor>; d = x - of_int f
      in if d < 1 / 2 then of_int f
         else if 1 / 2 < d then of_int (f + 1)
         else if even f then of_int f else of_int (f + 1))"

definition incidence :: "int list list" where
  "incidence = [[-1, 1, 0, 0, -1],
                [0, -1, 1, 0, 0],
                [0, 0, -1, 1, 0],
                [0, 0, 0, -1, 1]]"

definition report :: "ecs_input \<Rightarrow> real \<Rightarrow> real \<Rightarrow> vec \<Rightarrow> event list" where
  "report inp UA w_turb x =
     (let t = \<theta>_turb inp # slice x 0 8 2;
          w = w_turb # slice x 1 8 2
      in [ChartA t w incidence,
          Print_blank,
          Print_points (zip t (map (\<lambda>v. 1000 * v) w)),
          Print_blank,
          Print_duties (zip [''QsHC'', ''QlVH'', ''QsTZ'', ''QlTZ''] (map (\<lambda>q. q / 1000) (drop 8 x))),
          Print_UA (py_round UA)])"

text \<open>
  The routine: the events it performed, and the raised error or the returned vector.
  An exception leaves the function at once, so nothing after it is performed.
\<close>

definition ModelECS :: "(real \<Rightarrow> real \<Rightarrow> real) \<Rightarrow> ecs_input \<Rightarrow> event list \<times> (error + vec)" where
  "ModelECS psy_w inp =
     (case derived inp of
        Inl e \<Rightarrow> ([], Inl e)
      | Inr (m, QsZ, UA) \<Rightarrow>
          let Kt = 10 ^ 10; Kw = 10 ^ 10;
              w_turb = psy_w (\<theta>_turb inp) (\<phi>_turb inp);
              wIsp = psy_w (\<theta>Isp inp) (\<phi>Isp inp);
              A = coefficients inp m UA Kt Kw;
              b = constants inp m UA Kt Kw w_turb wIsp
          in case solve A b of
               Inl e \<Rightarrow> ([], Inl e)
             | Inr x \<Rightarrow> (report inp UA w_turb x, Inr x))"

subsection \<open>The routine in binary64\<close>

text \<open>
  Rounding of a real number to binary64: to the nearest number with 53 significant bits,
  a tie to the one with an even significand. Overflow and subnormal numbers are not
  modelled; every quantity below lies in the normal range.
\<close>

definition rne :: "real \<Rightarrow> int" where
  "rne x =
     (let f = \<lfloor>x\<rfloor>; d = x - of_int f
      in if d < 1 / 2 then f
         else if 1 / 2 < d then f + 1
         else if even f then f else f + 1)"

fun ilog2 :: "nat \<Rightarrow> real \<Rightarrow> int" where
  "ilog2 0 y = 0"
| "ilog2 (Suc n) y =
     (if y < 1 then ilog2 n (2 * y) - 1
      else if 2 \<le> y then ilog2 n (y / 2) + 1
      else 0)"

definition pow2 :: "int \<Rightarrow> real" where
  "pow2 e = (if 0 \<le> e then 2 ^ nat e else 1 / 2 ^ nat (- e))"

definition fl :: "real \<Rightarrow> real" where
  "fl x =
     (if x = 0 then 0
      else let e = ilog2 1100 \<bar>x\<bar> - 52
           in of_int (rne (x / pow2 e)) * pow2 e)"

text \<open>
  The derived scalars, the assembly and the solve with every arithmetic result rounded, in
  the order in which Python evaluates the expressions of the source (left to right) and
  the elimination forms its quotients, products and differences. The inputs and the
  values of the psychrometric collaborator are binary64 numbers. The constants \<open>c\<close>,
  \<open>l\<close> and the gains are binary64 numbers as they stand. Only the returned vector is
  modelled here.
\<close>

definition derived_fl :: "ecs_input \<Rightarrow> error + real \<times> real \<times> real" where
  "derived_fl inp =
     (if \<alpha> inp = 0 then Inl ZeroDivisionError
      else let m = fl (m_fresh inp / \<alpha> inp);
               QsZ = fl (fl (- m * c) * fl (\<theta>S inp - \<theta>Isp inp))
           in if fl (\<theta>_ext inp - \<theta>Isp inp) = 0 then Inl ZeroDivisionError
              else Inr (m, QsZ, fl (fl (QsZ - Qsa inp) / fl (\<theta>_ext inp - \<theta>Isp inp))))"

definition coefficients_fl :: "ecs_input \<Rightarrow> real \<Rightarrow> real \<Rightarrow> real \<Rightarrow> real \<Rightarrow> mat" where
  "coefficients_fl inp m UA Kt Kw =
     foldl (\<lambda>A (ij, v). set2 A ij v) (zeros2 12 12)
       [((0, 0), fl (m * c)), ((0, 6), fl (fl (- fl (1 - \<alpha> inp) * m) * c)),
        ((1, 1), fl (m * l)), ((1, 7), fl (fl (- fl (1 - \<alpha> inp) * m) * l)),
        ((2, 0), fl (m * c)), ((2, 2), fl (- m * c)), ((2, 8), 1),
        ((3, 1), fl (m * l)), ((3, 3), fl (- m * l)),
        ((4, 2), fl (m * c)), ((4, 4), fl (- m * c)),
        ((5, 3), fl (m * l)), ((5, 5), fl (- m * l)), ((5, 9), 1),
        ((6, 4), fl (m * c)), ((6, 6), fl (- m * c)), ((6, 10), 1),
        ((7, 5), fl (m * l)), ((7, 7), fl (- m * l)), ((7, 11), 1),
        ((8, 6), UA), ((8, 10), 1),
        ((9, 7), 0), ((9, 11), 1),
        ((10, 6), Kt), ((10, 8), 1),
        ((11, 7), Kw), ((11, 9), 1)]"

definition constants_fl ::
  "ecs_input \<Rightarrow> real \<Rightarrow> real \<Rightarrow> real \<Rightarrow> real \<Rightarrow> real \<Rightarrow> real \<Rightarrow> vec" where
  "constants_fl inp m UA Kt Kw w_turb wIsp =
     foldl (\<lambda>b (i, v). b[i := v]) (zeros 12)
       [(0, fl (fl (fl (\<alpha> inp * m) * c) * \<theta>_turb inp)),
        (1, fl (fl (fl (\<alpha> inp * m) * l) * w_turb)),
        (2, 0), (3, 0), (4, 0), (5, 0), (6, 0), (7, 0),
        (8, fl (fl (UA * \<theta>_ext inp) + Qsa inp)),
        (9, Qla inp),
        (10, fl (Kt * \<theta>Isp inp)),
        (11, fl (Kw * wIsp))]"

definition dot_fl :: "vec \<Rightarrow> vec \<Rightarrow> real" where
  "dot_fl xs ys = foldl (\<lambda>s (a, y). fl (s + fl (a * y))) 0 (zip xs ys)"

definition eliminate_fl :: "eqn \<Rightarrow> eqn \<Rightarrow> eqn" where
  "eliminate_fl p e =
     (let f = fl (lead e / lead p)
      in (map2 (\<lambda>a b. fl (a - fl (f * b))) (tl (fst e)) (tl (fst p)),
          fl (snd e - fl (f * snd p))))"

function gauss_fl :: "eqn list \<Rightarrow> vec option" where
  "gauss_fl [] = Some []"
| "gauss_fl (e # es) =
     (case pivot_rows (e # es) of
        [] \<Rightarrow> None
      | p # rest \<Rightarrow>
          if lead p = 0 then None
          else (case gauss_fl (map (eliminate_fl p) rest) of
                  None \<Rightarrow> None
                | Some ys \<Rightarrow> Some (fl (fl (snd p - dot_fl (tl (fst p)) ys) / lead p) # ys)))"
  by pat_completeness auto
termination
proof (relation "measure length")
  show "wf (measure length)" by simp
next
  fix e :: eqn and es p rest
  assume "pivot_rows (e # es) = p # rest"
  then have "length (p # rest) = length (pivot_rows (e # es))"
    by simp
  also have "\<dots> = length (e # es)"
    by (simp only: pivot_rows_def swap_rows_def length_list_update)
  finally have "length (p # rest) = length (e # es)" .
  then show "(map (eliminate_fl p) rest, e # es) \<in> measure length"
    by simp
qed

definition solve_fl :: "mat \<Rightarrow> vec \<Rightarrow> error + vec" where
  "solve_fl A b =
     (if (\<exists>row \<in> set A. length row \<noteq> length A) \<or> length b \<noteq> length A then Inl LinAlgError
      else case gauss_fl (zip A b) of None \<Rightarrow> Inl LinAlgError | Some x \<Rightarrow> Inr x)"

definition ModelECS_fl :: "(real \<Rightarrow> real \<Rightarrow> real) \<Rightarrow> ecs_input \<Rightarrow> error + vec" where
  "ModelECS_fl psy_w inp =
     (case derived_fl inp of
        Inl e \<Rightarrow> Inl e
      | Inr (m, QsZ, UA) \<Rightarrow>
          let Kt = 10 ^ 10; Kw = 10 ^ 10;
              w_turb = psy_w (\<theta>_turb inp) (\<phi>_turb inp);
              wIsp = psy_w (\<theta>Isp inp) (\<phi>Isp inp);
              A = coefficients_fl inp m UA Kt Kw;
              b = constants_fl inp m UA Kt Kw w_turb wIsp
          in solve_fl A b)"

subsection \<open>Solutions of a system\<close>

text \<open>
  A vector satisfies a list of equations; a list of \<open>n\<close> equations in \<open>n\<close> unknowns; the
  equations with their constant terms set to zero; a matrix whose kernel is trivial.
\<close>

definition sat :: "eqn list \<Rightarrow> vec \<Rightarrow> bool" where
  "sat es v = (\<forall>e \<in> set es. dot (fst e) v = snd e)"

definition square :: "nat \<Rightarrow> eqn list \<Rightarrow> bool" where
  "square n es = (length es = n \<and> (\<forall>e \<in> set es. length (fst e) = n))"

definition homog :: "eqn \<Rightarrow> eqn" where
  "homog e = (fst e, 0)"

definition nonsingular :: "mat \<Rightarrow> bool" where
  "nonsingular A =
     (\<forall>v. length v = length A \<longrightarrow> mat_vec A v = zeros (length A) \<longrightarrow> v = zeros (length A))"

subsection \<open>Sample inputs\<close>

text \<open>
  The operating point of the concrete scenario (1 kg/s of fresh air, half of the flow
  recirculated), and a humidity-ratio law standing for the psychrometric collaborator.
\<close>

definition scenario :: ecs_input where
  "scenario = \<lparr>m_fresh = 1, \<alpha> = 1 / 2, \<theta>S = 18, \<theta>Isp = 24, \<phi>Isp = 1 / 2, \<theta>_turb = 5,
               \<phi>_turb = 9 / 10, \<theta>_ext = 35, Qsa = 500, Qla = 200\<rparr>"

definition psy_w0 :: "real \<Rightarrow> real \<Rightarrow> real" where
  "psy_w0 t p = p * (40 + 2 * t + t * t / 4) / 10000"

text \<open>
  An operating point without recirculation, given by the binary64 numbers nearest to
  10.756, 13.59 and 0.9, and the humidity-ratio law rounded to binary64.
\<close>

definition scenario64 :: ecs_input where
  "scenario64 = \<lparr>m_fresh = fl (10756 / 1000), \<alpha> = 1, \<theta>S = 18, \<theta>Isp = 24, \<phi>Isp = 1 / 2,
                 \<theta>_turb = fl (1359 / 100), \<phi>_turb = fl (9 / 10), \<theta>_ext = 35, Qsa = 500,
                 Qla = 200\<rparr>"

definition psy_w64 :: "real \<Rightarrow> real \<Rightarrow> real" where
  "psy_w64 t p = fl (psy_w0 t p)"

section \<open>The linear solver\<close>

lemma dot_Nil [simp]: "dot [] ys = 0" "dot xs [] = 0"
  by (simp_all add: dot_def)

lemma dot_Cons [simp]: "dot (a # as) (y # ys) = a * y + dot as ys"
  by (simp add: dot_def)

lemma dot_eliminate:
  "length as = length bs \<Longrightarrow>
   dot (map2 (\<lambda>a b. a - f * b) as bs) ys = dot as ys - f * dot bs ys"
proof (induction as bs arbitrary: ys rule: list_induct2)
  case Nil
  then show ?case by simp
next
  case (Cons a as b bs)
  then show ?case by (cases ys) (simp_all add: algebra_simps)
qed

lemma idamax_less: "xs \<noteq> [] \<Longrightarrow> idamax xs < length xs"
  by (induction xs) (auto simp: Let_def)

lemma idamax_greatest: "j < length xs \<Longrightarrow> \<bar>xs ! j\<bar> \<le> \<bar>xs ! idamax xs\<bar>"
proof (induction xs arbitrary: j)
  case Nil
  then show ?case by simp
next
  case (Cons x xs)
  show ?case
  proof (cases j)
    case 0
    then show ?thesis by (auto simp: Let_def)
  next
    case (Suc k)
    with Cons.prems have k: "k < length xs" by simp
    from Cons.IH [OF k] Suc k show ?thesis by (auto simp: Let_def)
  qed
qed

declare idamax.simps [simp del]

lemma length_pivot_rows: "length (pivot_rows es) = length es"
  by (simp only: pivot_rows_def swap_rows_def length_list_update)

lemma pivot_rows_Cons:
  assumes "pivot_rows (e # es) = p # rest"
  shows "set (p # rest) = set (e # es)"
    and "\<forall>e' \<in> set (e # es). \<bar>lead e'\<bar> \<le> \<bar>lead p\<bar>"
proof -
  let ?xs = "e # es"
  let ?k = "idamax (map lead ?xs)"
  have k: "?k < length ?xs"
    using idamax_less [of "map lead ?xs"] by simp
  have "set (pivot_rows ?xs) = set ?xs"
    unfolding pivot_rows_def swap_rows_def using k by (intro set_swap) simp_all
  with assms show "set (p # rest) = set (e # es)" by simp
  have "hd (pivot_rows ?xs) = ?xs ! ?k"
    unfolding pivot_rows_def swap_rows_def using k
    by (cases "?k") (simp_all add: hd_conv_nth)
  with assms have p: "p = ?xs ! ?k" by simp
  show "\<forall>e' \<in> set (e # es). \<bar>lead e'\<bar> \<le> \<bar>lead p\<bar>"
  proof
    fix e' assume "e' \<in> set (e # es)"
    then obtain j where j: "j < length ?xs" "e' = ?xs ! j"
      by (metis in_set_conv_nth)
    from idamax_greatest [of j "map lead ?xs"] j k p
    show "\<bar>lead e'\<bar> \<le> \<bar>lead p\<bar>" by (simp del: list.map)
  qed
qed


lemma eliminate_row:
  assumes p: "length (fst p) = Suc k" and e: "length (fst e) = Suc k"
    and nz: "lead p \<noteq> 0"
    and piv: "dot (fst p) (y # ys) = snd p"
  shows "dot (fst (eliminate p e)) ys = snd (eliminate p e) \<longleftrightarrow> dot (fst e) (y # ys) = snd e"
proof -
  from p obtain a as where pa: "fst p = a # as" and las: "length as = k"
    by (cases "fst p") auto
  from e obtain b bs where eb: "fst e = b # bs" and lbs: "length bs = k"
    by (cases "fst e") auto
  from nz pa have a: "a \<noteq> 0" by (simp add: lead_def)
  from piv pa have sp: "snd p = a * y + dot as ys" by simp
  have "dot (fst (eliminate p e)) ys = dot bs ys - b / a * dot as ys"
    using dot_eliminate [of bs as "b / a" ys] las lbs
    by (simp add: eliminate_def Let_def lead_def pa eb)
  moreover have "snd (eliminate p e) = snd e - b / a * (a * y + dot as ys)"
    by (simp add: eliminate_def Let_def lead_def pa eb sp)
  moreover have "b / a * (a * y + dot as ys) = b * y + b / a * dot as ys"
    using a by (simp add: algebra_simps)
  ultimately show ?thesis
    by (auto simp add: eb)
qed

lemma length_eliminate:
  "length (fst p) = Suc k \<Longrightarrow> length (fst e) = Suc k \<Longrightarrow> length (fst (eliminate p e)) = k"
  by (simp add: eliminate_def Let_def)

lemma gauss_step:
  assumes sq: "square (Suc k) es" and piv: "pivot_rows es = p # rest" and nz: "lead p \<noteq> 0"
  shows "square k (map (eliminate p) rest)"
    and "sat es (y # ys) \<longleftrightarrow>
           y = (snd p - dot (tl (fst p)) ys) / lead p \<and> sat (map (eliminate p) rest) ys"
proof -
  from sq obtain e es' where es: "es = e # es'"
    by (cases es) (auto simp: square_def)
  from piv es have set_eq: "set (p # rest) = set es"
    using pivot_rows_Cons(1) by blast
  have len: "length (p # rest) = length es"
    using length_pivot_rows [of es] piv by simp
  from sq set_eq have lp: "length (fst p) = Suc k"
    and lrest: "\<forall>e \<in> set rest. length (fst e) = Suc k"
    by (auto simp: square_def)
  from len sq have "length rest = k" by (simp add: square_def)
  with lp lrest show "square k (map (eliminate p) rest)"
    by (auto simp: square_def length_eliminate)
  from lp obtain a as where pa: "fst p = a # as"
    by (cases "fst p") auto
  with nz have a: "a \<noteq> 0" by (simp add: lead_def)
  have pivot_eq: "dot (fst p) (y # ys) = snd p \<longleftrightarrow> y = (snd p - dot (tl (fst p)) ys) / lead p"
    using a by (auto simp: pa lead_def field_simps)
  have "sat es (y # ys) \<longleftrightarrow>
          dot (fst p) (y # ys) = snd p \<and> (\<forall>e \<in> set rest. dot (fst e) (y # ys) = snd e)"
    unfolding sat_def set_eq [symmetric] by simp
  also have "\<dots> \<longleftrightarrow>
          dot (fst p) (y # ys) = snd p \<and>
          (\<forall>e \<in> set rest. dot (fst (eliminate p e)) ys = snd (eliminate p e))"
    using eliminate_row [OF lp _ nz] lrest by blast
  also have "\<dots> \<longleftrightarrow>
          y = (snd p - dot (tl (fst p)) ys) / lead p \<and> sat (map (eliminate p) rest) ys"
    by (simp add: pivot_eq sat_def)
  finally show "sat es (y # ys) \<longleftrightarrow>
           y = (snd p - dot (tl (fst p)) ys) / lead p \<and> sat (map (eliminate p) rest) ys" .
qed

lemma gauss_sound:
  "square n es \<Longrightarrow> gauss es = Some x \<Longrightarrow>
   length x = n \<and> (\<forall>v. length v = n \<longrightarrow> (sat es v \<longleftrightarrow> v = x))"
proof (induction n arbitrary: es x)
  case 0
  then show ?case by (auto simp: square_def sat_def)
next
  case (Suc k)
  from Suc.prems(1) obtain e es' where es: "es = e # es'"
    by (cases es) (auto simp: square_def)
  from Suc.prems(2) es obtain p rest ys where
    piv: "pivot_rows es = p # rest" and nz: "lead p \<noteq> 0"
    and rec: "gauss (map (eliminate p) rest) = Some ys"
    and x: "x = (snd p - dot (tl (fst p)) ys) / lead p # ys"
    by (auto split: list.splits if_splits option.splits)
  note step = gauss_step [OF Suc.prems(1) piv nz]
  from Suc.IH [OF step(1) rec]
  have lys: "length ys = k"
    and uniq: "\<And>v. length v = k \<Longrightarrow> sat (map (eliminate p) rest) v \<longleftrightarrow> v = ys"
    by auto
  show ?case
  proof (intro conjI allI impI)
    show "length x = Suc k" using x lys by simp
  next
    fix v :: vec assume "length v = Suc k"
    then obtain y v' where v: "v = y # v'" and lv': "length v' = k"
      by (cases v) auto
    show "sat es v \<longleftrightarrow> v = x"
      unfolding v step(2) uniq [OF lv'] x by auto
  qed
qed

lemma gauss_complete:
  "square n es \<Longrightarrow> length v = n \<Longrightarrow> sat es v \<Longrightarrow>
   (\<And>v'. length v' = n \<Longrightarrow> sat es v' \<Longrightarrow> v' = v) \<Longrightarrow> gauss es \<noteq> None"
proof (induction n arbitrary: es v)
  case 0
  then show ?case by (auto simp: square_def)
next
  case (Suc k)
  from Suc.prems(1) obtain e es' where es: "es = e # es'"
    by (cases es) (auto simp: square_def)
  from Suc.prems(2) obtain y vs where v: "v = y # vs" and lvs: "length vs = k"
    by (cases v) auto
  obtain p rest where piv: "pivot_rows es = p # rest"
    using es length_pivot_rows [of es] by (cases "pivot_rows es") auto
  show ?case
  proof (cases "lead p = 0")
    case True
    have lead0: "\<forall>e' \<in> set es. lead e' = 0"
      using pivot_rows_Cons(2) [OF piv [unfolded es]] True es by auto
    have "sat es ((y + 1) # vs)"
      unfolding sat_def
    proof
      fix e' assume e': "e' \<in> set es"
      with Suc.prems(1) obtain b bs where b: "fst e' = b # bs"
        by (cases "fst e'") (auto simp: square_def)
      with lead0 e' have "b = 0" by (auto simp: lead_def)
      with b Suc.prems(3) e' show "dot (fst e') ((y + 1) # vs) = snd e'"
        by (auto simp: sat_def v)
    qed
    from Suc.prems(4) [OF _ this] lvs v show ?thesis by simp
  next
    case False
    note step = gauss_step [OF Suc.prems(1) piv False]
    from Suc.prems(3) have sat_vs: "sat (map (eliminate p) rest) vs"
      unfolding v step(2) by simp
    have "gauss (map (eliminate p) rest) \<noteq> None"
    proof (rule Suc.IH [OF step(1) lvs sat_vs])
      fix v' assume lv': "length v' = k" and sv': "sat (map (eliminate p) rest) v'"
      let ?y = "(snd p - dot (tl (fst p)) v') / lead p"
      have "sat es (?y # v')" unfolding step(2) using sv' by simp
      from Suc.prems(4) [OF _ this] lv' v show "v' = vs" by simp
    qed
    with piv False es show ?thesis by (auto split: list.splits)
  qed
qed

lemma zeros_12: "zeros 12 = [0,0,0,0,0,0,0,0,0,0,0,0]"
  by (simp add: zeros_def eval_nat_numeral)

lemma coefficients_explicit:
  "coefficients inp m UA Kt Kw =
    [[m * c, 0, 0, 0, 0, 0, - (1 - \<alpha> inp) * m * c, 0, 0, 0, 0, 0],
     [0, m * l, 0, 0, 0, 0, 0, - (1 - \<alpha> inp) * m * l, 0, 0, 0, 0],
     [m * c, 0, - m * c, 0, 0, 0, 0, 0, 1, 0, 0, 0],
     [0, m * l, 0, - m * l, 0, 0, 0, 0, 0, 0, 0, 0],
     [0, 0, m * c, 0, - m * c, 0, 0, 0, 0, 0, 0, 0],
     [0, 0, 0, m * l, 0, - m * l, 0, 0, 0, 1, 0, 0],
     [0, 0, 0, 0, m * c, 0, - m * c, 0, 0, 0, 1, 0],
     [0, 0, 0, 0, 0, m * l, 0, - m * l, 0, 0, 0, 1],
     [0, 0, 0, 0, 0, 0, UA, 0, 0, 0, 1, 0],
     [0, 0, 0, 0, 0, 0, 0, 0, 0, 0, 0, 1],
     [0, 0, 0, 0, 0, 0, Kt, 0, 1, 0, 0, 0],
     [0, 0, 0, 0, 0, 0, 0, Kw, 0, 1, 0, 0]]"
  unfolding coefficients_def zeros2_def zeros_12
  by (simp add: set2_def eval_nat_numeral)

lemma constants_explicit:
  "constants inp m UA Kt Kw w_turb wIsp =
    [\<alpha> inp * m * c * \<theta>_turb inp, \<alpha> inp * m * l * w_turb, 0, 0, 0, 0, 0, 0,
     UA * \<theta>_ext inp + Qsa inp, Qla inp, Kt * \<theta>Isp inp, Kw * wIsp]"
  unfolding constants_def zeros_12
  by (simp add: eval_nat_numeral)

lemma mat_vec_coefficients:
  "mat_vec (coefficients inp m UA Kt Kw) [v0, v1, v2, v3, v4, v5, v6, v7, v8, v9, v10, v11] =
    [m * c * v0 - (1 - \<alpha> inp) * m * c * v6,
     m * l * v1 - (1 - \<alpha> inp) * m * l * v7,
     m * c * v0 - m * c * v2 + v8,
     m * l * v1 - m * l * v3,
     m * c * v2 - m * c * v4,
     m * l * v3 - m * l * v5 + v9,
     m * c * v4 - m * c * v6 + v10,
     m * l * v5 - m * l * v7 + v11,
     UA * v6 + v10,
     v11,
     Kt * v6 + v8,
     Kw * v7 + v9]"
  unfolding coefficients_explicit mat_vec_def
  by (simp add: dot_def algebra_simps)


lemma lead_homog [simp]: "lead (homog e) = lead e"
  by (simp add: lead_def homog_def)

lemma eliminate_homog: "eliminate (homog p) (homog e) = homog (eliminate p e)"
  by (simp add: eliminate_def homog_def lead_def Let_def)

lemma pivot_rows_homog: "pivot_rows (map homog es) = map homog (pivot_rows es)"
proof (cases es)
  case Nil
  then show ?thesis by (simp add: pivot_rows_def swap_rows_def)
next
  case (Cons e es')
  let ?k = "idamax (map lead es)"
  have k: "?k < length es"
    using idamax_less [of "map lead es"] Cons by simp
  have leads: "map lead (map homog es) = map lead es" by simp
  have pos: "0 < length es" using Cons by simp
  show ?thesis
    unfolding pivot_rows_def swap_rows_def leads
    using k pos by (simp only: map_update nth_map)
qed

lemma gauss_None_iff:
  "pivot_rows (e # es) = p # rest \<Longrightarrow>
   gauss (e # es) = None \<longleftrightarrow> lead p = 0 \<or> gauss (map (eliminate p) rest) = None"
  by (simp split: option.splits)

lemma gauss_homog: "gauss (map homog es) = None \<longleftrightarrow> gauss es = None"
proof (induction es rule: gauss.induct)
  case 1
  then show ?case by simp
next
  case (2 e es)
  show ?case
  proof (cases "pivot_rows (e # es)")
    case Nil
    then show ?thesis using length_pivot_rows [of "e # es"] by simp
  next
    case (Cons p rest)
    have "pivot_rows (map homog (e # es)) = map homog (p # rest)"
      unfolding pivot_rows_homog Cons ..
    then have hp: "pivot_rows (homog e # map homog es) = homog p # map homog rest"
      by simp
    have em: "map (eliminate (homog p)) (map homog rest) = map homog (map (eliminate p) rest)"
      by (simp add: eliminate_homog)
    show ?thesis
    proof (cases "lead p = 0")
      case True
      with gauss_None_iff [OF Cons] gauss_None_iff [OF hp] show ?thesis by simp
    next
      case False
      from "2.IH" [OF Cons False]
      have "gauss (map (eliminate (homog p)) (map homog rest)) = None \<longleftrightarrow>
            gauss (map (eliminate p) rest) = None"
        unfolding em .
      with gauss_None_iff [OF Cons] gauss_None_iff [OF hp] False show ?thesis
        by (simp del: gauss.simps)
    qed
  qed
qed

lemma dot_zeros [simp]: "dot xs (replicate n 0) = 0"
proof (induction xs arbitrary: n)
  case Nil
  then show ?case by simp
next
  case (Cons x xs)
  then show ?case by (cases n) simp_all
qed

lemma sat_zip: "length A = length b \<Longrightarrow> sat (zip A b) v \<longleftrightarrow> mat_vec A v = b"
  by (induction A b rule: list_induct2) (auto simp: sat_def mat_vec_def)

lemma square_zip:
  "\<forall>row \<in> set A. length row = length A \<Longrightarrow> length b = length A \<Longrightarrow> square (length A) (zip A b)"
  by (auto simp: square_def dest: set_zip_leftD)

lemma homog_zip: "length A = length b \<Longrightarrow> map homog (zip A b) = zip A (zeros (length A))"
  by (induction A b rule: list_induct2) (simp_all add: homog_def zeros_def)

lemma solve_Inr:
  assumes "solve A b = Inr x"
  shows "length x = length A" and "mat_vec A x = b"
    and "\<And>v. length v = length A \<Longrightarrow> mat_vec A v = b \<Longrightarrow> v = x"
    and "nonsingular A"
proof -
  from assms have rows: "\<forall>row \<in> set A. length row = length A" and lb: "length b = length A"
    and g: "gauss (zip A b) = Some x"
    by (auto simp: solve_def split: if_splits option.splits)
  note s = gauss_sound [OF square_zip [OF rows lb] g]
  from s show "length x = length A" by simp
  from s lb show "mat_vec A x = b" by (simp add: sat_zip)
  from s lb show "\<And>v. length v = length A \<Longrightarrow> mat_vec A v = b \<Longrightarrow> v = x"
    by (simp add: sat_zip)
  let ?z = "zeros (length A)"
  have lz: "length ?z = length A" by (simp add: zeros_def)
  from g have "gauss (map homog (zip A b)) \<noteq> None"
    by (simp add: gauss_homog)
  then obtain y where y: "gauss (zip A ?z) = Some y"
    using lb by (auto simp: homog_zip)
  note h = gauss_sound [OF square_zip [OF rows lz] y]
  show "nonsingular A"
    unfolding nonsingular_def
  proof (intro allI impI)
    fix v assume v: "length v = length A" "mat_vec A v = ?z"
    have "mat_vec A ?z = ?z"
      by (simp add: mat_vec_def zeros_def map_replicate_const)
    with h lz v have "?z = y" "v = y" by (simp_all add: sat_zip)
    then show "v = ?z" by simp
  qed
qed

lemma solve_nonsingular:
  assumes rows: "\<forall>row \<in> set A. length row = length A" and lb: "length b = length A"
    and ns: "nonsingular A"
  shows "\<exists>x. solve A b = Inr x"
proof -
  let ?z = "zeros (length A)"
  have lz: "length ?z = length A" by (simp add: zeros_def)
  have zz: "mat_vec A ?z = ?z"
    by (simp add: mat_vec_def zeros_def map_replicate_const)
  have "gauss (zip A ?z) \<noteq> None"
  proof (rule gauss_complete [OF square_zip [OF rows lz] lz])
    show "sat (zip A ?z) ?z" using zz lz by (simp add: sat_zip)
  next
    fix v' assume "length v' = length A" "sat (zip A ?z) v'"
    with ns lz show "v' = ?z" by (simp add: sat_zip nonsingular_def)
  qed
  then have "gauss (map homog (zip A b)) \<noteq> None"
    using lb by (simp add: homog_zip)
  then have "gauss (zip A b) \<noteq> None"
    by (simp add: gauss_homog)
  with rows lb show ?thesis
    by (auto simp: solve_def)
qed

lemma length_12:
  assumes "length (v :: real list) = 12"
  obtains v0 v1 v2 v3 v4 v5 v6 v7 v8 v9 v10 v11
  where "v = [v0, v1, v2, v3, v4, v5, v6, v7, v8, v9, v10, v11]"
proof -
  from assms have "v = map (\<lambda>i. v ! i) [0..<12]"
    by (metis map_nth)
  also have "[0..<12] = [0,1,2,3,4,5,6,7,8,9,10,11::nat]"
    by (simp add: upt_rec)
  finally show thesis using that by simp
qed

lemma balance_keys:
  assumes "mat_vec (coefficients inp m UA Kt Kw) [v0, v1, v2, v3, v4, v5, v6, v7, v8, v9, v10, v11]
           = [r0, r1, r2, r3, r4, r5, r6, r7, r8, r9, r10, r11]"
  shows "(Kt + UA + \<alpha> inp * m * c) * v6 = r0 + r8 + r10 - r2 - r4 - r6"
    and "(Kw + \<alpha> inp * m * l) * v7 = r1 + r9 + r11 - r3 - r5 - r7"
proof -
  from assms have
    "m * c * v0 - (1 - \<alpha> inp) * m * c * v6 = r0"
    "m * c * v0 - m * c * v2 + v8 = r2"
    "m * c * v2 - m * c * v4 = r4"
    "m * c * v4 - m * c * v6 + v10 = r6"
    "UA * v6 + v10 = r8"
    "Kt * v6 + v8 = r10"
    by (simp_all add: mat_vec_coefficients)
  then show "(Kt + UA + \<alpha> inp * m * c) * v6 = r0 + r8 + r10 - r2 - r4 - r6"
    by (simp add: algebra_simps)
  from assms have
    "m * l * v1 - (1 - \<alpha> inp) * m * l * v7 = r1"
    "m * l * v1 - m * l * v3 = r3"
    "m * l * v3 - m * l * v5 + v9 = r5"
    "m * l * v5 - m * l * v7 + v11 = r7"
    "v11 = r9"
    "Kw * v7 + v9 = r11"
    by (simp_all add: mat_vec_coefficients)
  then show "(Kw + \<alpha> inp * m * l) * v7 = r1 + r9 + r11 - r3 - r5 - r7"
    by (simp add: algebra_simps)
qed

section \<open>The derived scalars\<close>

lemma derived_Inr:
  "\<alpha> inp \<noteq> 0 \<Longrightarrow> \<theta>_ext inp \<noteq> \<theta>Isp inp \<Longrightarrow>
   derived inp =
     Inr (m_fresh inp / \<alpha> inp,
          - (m_fresh inp / \<alpha> inp) * c * (\<theta>S inp - \<theta>Isp inp),
          (- (m_fresh inp / \<alpha> inp) * c * (\<theta>S inp - \<theta>Isp inp) - Qsa inp)
            / (\<theta>_ext inp - \<theta>Isp inp))"
  by (simp add: derived_def Let_def)

lemma derived_Inl:
  "\<alpha> inp = 0 \<or> \<theta>_ext inp = \<theta>Isp inp \<Longrightarrow> derived inp = Inl ZeroDivisionError"
  by (auto simp: derived_def Let_def)

text \<open>
  C5. The envelope conductance that \<^verbatim>\<open>ModelECS\<close> computes is
  \<open>(QsZ - Qsa) / (\<theta>_ext - \<theta>Isp)\<close>; with no auxiliary sensible heat it is
  \<open>QsZ / (\<theta>_ext - \<theta>Isp)\<close>.
\<close>

theorem envelope_conductance:
  assumes "\<alpha> inp \<noteq> 0" and "\<theta>_ext inp \<noteq> \<theta>Isp inp"
  shows "\<exists>m QsZ UA. derived inp = Inr (m, QsZ, UA)
           \<and> UA = (QsZ - Qsa inp) / (\<theta>_ext inp - \<theta>Isp inp)
           \<and> (Qsa inp = 0 \<longrightarrow> UA = QsZ / (\<theta>_ext inp - \<theta>Isp inp))"
  using assms by (simp add: derived_Inr)

theorem envelope_conductance_witness:
  "\<alpha> (scenario\<lparr>Qsa := 0, Qla := 0\<rparr>) \<noteq> 0
   \<and> \<theta>_ext (scenario\<lparr>Qsa := 0, Qla := 0\<rparr>) \<noteq> \<theta>Isp (scenario\<lparr>Qsa := 0, Qla := 0\<rparr>)
   \<and> Qsa (scenario\<lparr>Qsa := 0, Qla := 0\<rparr>) = 0
   \<and> derived (scenario\<lparr>Qsa := 0, Qla := 0\<rparr>) = Inr (2, 12000, 12000 / (35 - 24))"
proof -
  have a: "\<alpha> (scenario\<lparr>Qsa := 0, Qla := 0\<rparr>) \<noteq> 0"
    and t: "\<theta>_ext (scenario\<lparr>Qsa := 0, Qla := 0\<rparr>) \<noteq> \<theta>Isp (scenario\<lparr>Qsa := 0, Qla := 0\<rparr>)"
    by (simp_all add: scenario_def)
  from envelope_conductance [OF a t] show ?thesis
    by (auto simp: scenario_def derived_def Let_def c_def)
qed

text \<open>
  C10. The zone sensible load behind the conductance is
  \<open>QsZ = - (m_fresh / \<alpha>) * c * (\<theta>S - \<theta>Isp)\<close> with \<open>c = 1000\<close>, so that
  \<open>UA = (- (m_fresh / \<alpha>) * c * (\<theta>S - \<theta>Isp) - Qsa) / (\<theta>_ext - \<theta>Isp)\<close>.
\<close>

theorem zone_sensible_load:
  assumes "\<alpha> inp \<noteq> 0" and "\<theta>_ext inp \<noteq> \<theta>Isp inp"
  shows "derived inp =
           Inr (m_fresh inp / \<alpha> inp,
                - (m_fresh inp / \<alpha> inp) * 1000 * (\<theta>S inp - \<theta>Isp inp),
                (- (m_fresh inp / \<alpha> inp) * 1000 * (\<theta>S inp - \<theta>Isp inp) - Qsa inp)
                  / (\<theta>_ext inp - \<theta>Isp inp))"
  using assms by (simp add: derived_Inr c_def)

theorem zone_sensible_load_witness:
  "\<alpha> scenario \<noteq> 0 \<and> \<theta>_ext scenario \<noteq> \<theta>Isp scenario
   \<and> derived scenario = Inr (2, 12000, 11500 / 11)"
proof -
  have a: "\<alpha> scenario \<noteq> 0" and t: "\<theta>_ext scenario \<noteq> \<theta>Isp scenario"
    by (simp_all add: scenario_def)
  from zone_sensible_load [OF a t] show ?thesis
    by (simp add: scenario_def)
qed

text \<open>
  C6. With \<open>\<alpha> = 0\<close> or \<open>\<theta>_ext = \<theta>Isp\<close> the routine ends in the division error of the
  expression for \<^verbatim>\<open>m\<close> or \<^verbatim>\<open>UA\<close>, having done nothing else and returning nothing;
  for every other input both divisions succeed.
\<close>

theorem degenerate_input_raises:
  "(\<alpha> inp = 0 \<or> \<theta>_ext inp = \<theta>Isp inp \<longrightarrow>
      derived inp = Inl ZeroDivisionError \<and> ModelECS psy_w inp = ([], Inl ZeroDivisionError))
   \<and> (\<alpha> inp \<noteq> 0 \<and> \<theta>_ext inp \<noteq> \<theta>Isp inp \<longrightarrow> (\<exists>m QsZ UA. derived inp = Inr (m, QsZ, UA)))"
  by (auto simp: ModelECS_def derived_Inl derived_Inr)

theorem degenerate_input_raises_witness:
  "\<alpha> (scenario\<lparr>\<alpha> := 0\<rparr>) = 0
   \<and> ModelECS psy_w0 (scenario\<lparr>\<alpha> := 0\<rparr>) = ([], Inl ZeroDivisionError)
   \<and> \<theta>_ext (scenario\<lparr>\<theta>_ext := 24\<rparr>) = \<theta>Isp (scenario\<lparr>\<theta>_ext := 24\<rparr>)
   \<and> ModelECS psy_w0 (scenario\<lparr>\<theta>_ext := 24\<rparr>) = ([], Inl ZeroDivisionError)
   \<and> \<alpha> scenario \<noteq> 0 \<and> \<theta>_ext scenario \<noteq> \<theta>Isp scenario
   \<and> derived scenario = Inr (2, 12000, 11500 / 11)"
  using degenerate_input_raises [of "scenario\<lparr>\<alpha> := 0\<rparr>" psy_w0]
    degenerate_input_raises [of "scenario\<lparr>\<theta>_ext := 24\<rparr>" psy_w0]
    degenerate_input_raises [of scenario psy_w0]
  by (simp add: scenario_def derived_def Let_def c_def)

section \<open>The assembled system\<close>

text \<open>
  C2, as amended. Row 9 of the assembled system has the coefficient 1 at unknown 11 and
  the coefficient 0 at every other unknown, unknown 7 included, and its constant term is
  \<open>Qla\<close>: the row reads \<open>x\<^sub>1\<^sub>1 = Qla\<close>.
\<close>

theorem latent_building_row:
  "coefficients inp m UA Kt Kw ! 9 = [0, 0, 0, 0, 0, 0, 0, 0, 0, 0, 0, 1]
   \<and> constants inp m UA Kt Kw w_turb wIsp ! 9 = Qla inp"
  by (simp add: coefficients_explicit constants_explicit)

text \<open>
  C2, as stated, fails: in the system assembled for the sample scenario the coefficient
  of unknown 7 in row 9 is zero, so the zone-exit humidity ratio does not occur in that row.
\<close>

theorem latent_building_row_counterexample:
  "\<not> (coefficients scenario 2 (11500 / 11) (10 ^ 10) (10 ^ 10) ! 9 ! 7 \<noteq> 0
      \<and> coefficients scenario 2 (11500 / 11) (10 ^ 10) (10 ^ 10) ! 9 ! 11 \<noteq> 0)"
  by (simp add: coefficients_explicit)

section \<open>The solved state\<close>

lemma length_coefficients:
  "length (coefficients inp m UA Kt Kw) = 12"
  "\<forall>row \<in> set (coefficients inp m UA Kt Kw). length row = 12"
  "length (constants inp m UA Kt Kw w_turb wIsp) = 12"
  by (simp_all add: coefficients_explicit constants_explicit)

lemma nonsingular_coefficients:
  assumes m: "m \<noteq> 0"
    and dt: "Kt + UA + \<alpha> inp * m * c \<noteq> 0"
    and dw: "Kw + \<alpha> inp * m * l \<noteq> 0"
  shows "nonsingular (coefficients inp m UA Kt Kw)"
  unfolding nonsingular_def length_coefficients
proof (intro allI impI)
  fix v :: vec
  assume len: "length v = 12" and ker: "mat_vec (coefficients inp m UA Kt Kw) v = zeros 12"
  from len obtain v0 v1 v2 v3 v4 v5 v6 v7 v8 v9 v10 v11
    where v: "v = [v0, v1, v2, v3, v4, v5, v6, v7, v8, v9, v10, v11]"
    by (rule length_12)
  note k = ker [unfolded v zeros_12]
  from balance_keys [OF k] dt dw have v6: "v6 = 0" and v7: "v7 = 0"
    by simp_all
  from k [unfolded mat_vec_coefficients] m v6 v7
  show "v = zeros 12"
    unfolding v zeros_12 by (auto simp: c_def l_def)
qed

lemma nonsingular_coefficients_D:
  assumes ns: "nonsingular (coefficients inp m UA Kt Kw)"
  shows "m \<noteq> 0" and "Kt + UA + \<alpha> inp * m * c \<noteq> 0" and "Kw + \<alpha> inp * m * l \<noteq> 0"
proof -
  have ker: "\<And>v. length v = 12 \<Longrightarrow> mat_vec (coefficients inp m UA Kt Kw) v = zeros 12
                \<Longrightarrow> v = zeros 12"
    using ns unfolding nonsingular_def length_coefficients by blast
  show m: "m \<noteq> 0"
  proof
    assume "m = 0"
    then have "mat_vec (coefficients inp m UA Kt Kw) [1, 0, 0, 0, 0, 0, 0, 0, 0, 0, 0, 0] = zeros 12"
      by (simp add: mat_vec_coefficients zeros_12)
    from ker [OF _ this] show False by (simp add: zeros_12)
  qed
  show "Kt + UA + \<alpha> inp * m * c \<noteq> 0"
  proof
    assume z: "Kt + UA + \<alpha> inp * m * c = 0"
    define q where "q = 1 - \<alpha> inp - Kt / (m * c)"
    have q: "m * c * q = m * c * (1 - \<alpha> inp) - Kt"
      using m by (simp add: q_def c_def field_simps)
    have "mat_vec (coefficients inp m UA Kt Kw) [1 - \<alpha> inp, 0, q, 0, q, 0, 1, 0, - Kt, 0, - UA, 0]
          = zeros 12"
      by (simp add: mat_vec_coefficients zeros_12) (use z q in algebra)
    from ker [OF _ this] show False by (simp add: zeros_12)
  qed
  show "Kw + \<alpha> inp * m * l \<noteq> 0"
  proof
    assume z: "Kw + \<alpha> inp * m * l = 0"
    define q where "q = 1 - \<alpha> inp - Kw / (m * l)"
    have q: "m * l * q = m * l * (1 - \<alpha> inp) - Kw"
      using m by (simp add: q_def l_def field_simps)
    have "mat_vec (coefficients inp m UA Kt Kw) [0, 1 - \<alpha> inp, 0, 1 - \<alpha> inp, 0, q, 0, 1, 0, - Kw, 0, 0]
          = zeros 12"
      by (simp add: mat_vec_coefficients zeros_12) (use z q in algebra)
    from ker [OF _ this] show False by (simp add: zeros_12)
  qed
qed

lemma ModelECS_success:
  assumes d: "derived inp = Inr (m, QsZ, UA)"
    and ns: "nonsingular (coefficients inp m UA (10 ^ 10) (10 ^ 10))"
  obtains x0 x1 x2 x3 x4 x5 x6 x7 x8 x9 x10 x11 where
    "ModelECS psy_w inp =
       (report inp UA (psy_w (\<theta>_turb inp) (\<phi>_turb inp)) [x0, x1, x2, x3, x4, x5, x6, x7, x8, x9, x10, x11],
        Inr [x0, x1, x2, x3, x4, x5, x6, x7, x8, x9, x10, x11])"
    and "mat_vec (coefficients inp m UA (10 ^ 10) (10 ^ 10)) [x0, x1, x2, x3, x4, x5, x6, x7, x8, x9, x10, x11]
         = constants inp m UA (10 ^ 10) (10 ^ 10)
             (psy_w (\<theta>_turb inp) (\<phi>_turb inp)) (psy_w (\<theta>Isp inp) (\<phi>Isp inp))"
    and "\<And>v. length v = 12 \<Longrightarrow>
           mat_vec (coefficients inp m UA (10 ^ 10) (10 ^ 10)) v
             = constants inp m UA (10 ^ 10) (10 ^ 10)
                 (psy_w (\<theta>_turb inp) (\<phi>_turb inp)) (psy_w (\<theta>Isp inp) (\<phi>Isp inp))
           \<Longrightarrow> v = [x0, x1, x2, x3, x4, x5, x6, x7, x8, x9, x10, x11]"
proof -
  let ?A = "coefficients inp m UA (10 ^ 10) (10 ^ 10)"
  let ?b = "constants inp m UA (10 ^ 10) (10 ^ 10)
              (psy_w (\<theta>_turb inp) (\<phi>_turb inp)) (psy_w (\<theta>Isp inp) (\<phi>Isp inp))"
  have "\<exists>x. solve ?A ?b = Inr x"
  proof (rule solve_nonsingular)
    show "\<forall>row \<in> set ?A. length row = length ?A"
      unfolding length_coefficients(1) by (rule length_coefficients(2))
    show "length ?b = length ?A"
      by (simp only: length_coefficients)
    show "nonsingular ?A" by (rule ns)
  qed
  then obtain x where x: "solve ?A ?b = Inr x" ..
  from solve_Inr(1) [OF x] have "length x = 12"
    by (simp add: length_coefficients)
  then obtain x0 x1 x2 x3 x4 x5 x6 x7 x8 x9 x10 x11
    where xs: "x = [x0, x1, x2, x3, x4, x5, x6, x7, x8, x9, x10, x11]"
    by (rule length_12)
  show thesis
  proof (rule that [of x0 x1 x2 x3 x4 x5 x6 x7 x8 x9 x10 x11])
    show "ModelECS psy_w inp =
       (report inp UA (psy_w (\<theta>_turb inp) (\<phi>_turb inp)) [x0, x1, x2, x3, x4, x5, x6, x7, x8, x9, x10, x11],
        Inr [x0, x1, x2, x3, x4, x5, x6, x7, x8, x9, x10, x11])"
      using d x by (simp add: ModelECS_def Let_def xs)
    show "mat_vec ?A [x0, x1, x2, x3, x4, x5, x6, x7, x8, x9, x10, x11] = ?b"
      using solve_Inr(2) [OF x] by (simp add: xs)
    show "\<And>v. length v = 12 \<Longrightarrow> mat_vec ?A v = ?b
            \<Longrightarrow> v = [x0, x1, x2, x3, x4, x5, x6, x7, x8, x9, x10, x11]"
      using solve_Inr(3) [OF x] by (simp add: xs length_coefficients)
  qed
qed

lemma derived_InrD:
  assumes "derived inp = Inr (m, QsZ, UA)"
  shows "\<alpha> inp \<noteq> 0" and "\<theta>_ext inp \<noteq> \<theta>Isp inp" and "\<alpha> inp * m = m_fresh inp"
    and "UA * (\<theta>_ext inp - \<theta>Isp inp) = QsZ - Qsa inp"
  using assms by (auto simp: derived_def Let_def split: if_splits)

lemma scenario_nonsingular:
  "nonsingular (coefficients scenario 2 (11500 / 11) (10 ^ 10) (10 ^ 10))"
  by (rule nonsingular_coefficients) (simp_all add: scenario_def c_def l_def)

lemma scenario_derived: "derived scenario = Inr (2, 12000, 11500 / 11)"
  by (simp add: derived_def scenario_def c_def Let_def)

text \<open>
  C1. Whenever both divisions succeed and the assembled matrix is nonsingular, the routine
  returns a vector of 12 elements that satisfies the assembled system: \<open>A x = b\<close>.
\<close>

theorem solution_satisfies_system:
  assumes "derived inp = Inr (m, QsZ, UA)"
    and "nonsingular (coefficients inp m UA (10 ^ 10) (10 ^ 10))"
  shows "\<exists>x. snd (ModelECS psy_w inp) = Inr x \<and> length x = 12
           \<and> mat_vec (coefficients inp m UA (10 ^ 10) (10 ^ 10)) x
               = constants inp m UA (10 ^ 10) (10 ^ 10)
                   (psy_w (\<theta>_turb inp) (\<phi>_turb inp)) (psy_w (\<theta>Isp inp) (\<phi>Isp inp))"
proof -
  from assms obtain x0 x1 x2 x3 x4 x5 x6 x7 x8 x9 x10 x11 where
    "ModelECS psy_w inp =
       (report inp UA (psy_w (\<theta>_turb inp) (\<phi>_turb inp)) [x0, x1, x2, x3, x4, x5, x6, x7, x8, x9, x10, x11],
        Inr [x0, x1, x2, x3, x4, x5, x6, x7, x8, x9, x10, x11])"
    and "mat_vec (coefficients inp m UA (10 ^ 10) (10 ^ 10)) [x0, x1, x2, x3, x4, x5, x6, x7, x8, x9, x10, x11]
         = constants inp m UA (10 ^ 10) (10 ^ 10)
             (psy_w (\<theta>_turb inp) (\<phi>_turb inp)) (psy_w (\<theta>Isp inp) (\<phi>Isp inp))"
    by (rule ModelECS_success)
  then show ?thesis by simp
qed

theorem solution_satisfies_system_witness:
  "derived scenario = Inr (2, 12000, 11500 / 11)
   \<and> nonsingular (coefficients scenario 2 (11500 / 11) (10 ^ 10) (10 ^ 10))
   \<and> (\<exists>x. snd (ModelECS psy_w0 scenario) = Inr x \<and> length x = 12
          \<and> mat_vec (coefficients scenario 2 (11500 / 11) (10 ^ 10) (10 ^ 10)) x
              = constants scenario 2 (11500 / 11) (10 ^ 10) (10 ^ 10)
                  (psy_w0 (\<theta>_turb scenario) (\<phi>_turb scenario))
                  (psy_w0 (\<theta>Isp scenario) (\<phi>Isp scenario)))"
  using solution_satisfies_system [OF scenario_derived scenario_nonsingular, of psy_w0]
    scenario_derived scenario_nonsingular
  by simp

text \<open>
  C9. Whenever the assembled matrix is nonsingular, the solved latent zone load \<open>x\<^sub>1\<^sub>1\<close>
  is the auxiliary latent heat \<open>Qla\<close>.
\<close>

theorem latent_zone_load:
  assumes "derived inp = Inr (m, QsZ, UA)"
    and "nonsingular (coefficients inp m UA (10 ^ 10) (10 ^ 10))"
  shows "\<exists>x. snd (ModelECS psy_w inp) = Inr x \<and> x ! 11 = Qla inp"
proof -
  from assms obtain x0 x1 x2 x3 x4 x5 x6 x7 x8 x9 x10 x11 where
    "ModelECS psy_w inp =
       (report inp UA (psy_w (\<theta>_turb inp) (\<phi>_turb inp)) [x0, x1, x2, x3, x4, x5, x6, x7, x8, x9, x10, x11],
        Inr [x0, x1, x2, x3, x4, x5, x6, x7, x8, x9, x10, x11])"
    and "mat_vec (coefficients inp m UA (10 ^ 10) (10 ^ 10)) [x0, x1, x2, x3, x4, x5, x6, x7, x8, x9, x10, x11]
         = constants inp m UA (10 ^ 10) (10 ^ 10)
             (psy_w (\<theta>_turb inp) (\<phi>_turb inp)) (psy_w (\<theta>Isp inp) (\<phi>Isp inp))"
    by (rule ModelECS_success)
  then show ?thesis
    by (simp add: mat_vec_coefficients constants_explicit)
qed

theorem latent_zone_load_witness:
  "derived scenario = Inr (2, 12000, 11500 / 11)
   \<and> nonsingular (coefficients scenario 2 (11500 / 11) (10 ^ 10) (10 ^ 10))
   \<and> (\<exists>x. snd (ModelECS psy_w0 scenario) = Inr x \<and> x ! 11 = 200)"
  using latent_zone_load [OF scenario_derived scenario_nonsingular, of psy_w0]
    scenario_derived scenario_nonsingular
  by (simp add: scenario_def)

section \<open>The process path and the setpoints\<close>

lemma slice_12:
  "slice [x0, x1, x2, x3, x4, x5, x6, x7, x8, x9, x10, x11] 0 8 2 = [x0, x2, x4, x6]"
  "slice [x0, x1, x2, x3, x4, x5, x6, x7, x8, x9, x10, x11] 1 8 2 = [x1, x3, x5, x7]"
  "slice [x0, x1, x2, x3, x4, x5, x6, x7, x8, x9, x10, x11] (Suc 0) 8 2 = [x1, x3, x5, x7]"
  by (simp_all add: slice_def upt_rec)

text \<open>
  C8. On success the chart collaborator is called once, before any printing, with the
  five-node path: the temperatures \<open>(\<theta>_turb, x\<^sub>0, x\<^sub>2, x\<^sub>4, x\<^sub>6)\<close>, the unscaled humidity
  ratios \<open>(w_turb, x\<^sub>1, x\<^sub>3, x\<^sub>5, x\<^sub>7)\<close> and the fixed incidence matrix of four rows and
  five columns.
\<close>

theorem chart_path:
  assumes "derived inp = Inr (m, QsZ, UA)"
    and "nonsingular (coefficients inp m UA (10 ^ 10) (10 ^ 10))"
  shows "\<exists>x. snd (ModelECS psy_w inp) = Inr x
           \<and> fst (ModelECS psy_w inp) =
               [ChartA [\<theta>_turb inp, x ! 0, x ! 2, x ! 4, x ! 6]
                       [psy_w (\<theta>_turb inp) (\<phi>_turb inp), x ! 1, x ! 3, x ! 5, x ! 7]
                       [[-1, 1, 0, 0, -1], [0, -1, 1, 0, 0], [0, 0, -1, 1, 0], [0, 0, 0, -1, 1]],
                Print_blank,
                Print_points
                  [(\<theta>_turb inp, 1000 * psy_w (\<theta>_turb inp) (\<phi>_turb inp)),
                   (x ! 0, 1000 * x ! 1), (x ! 2, 1000 * x ! 3),
                   (x ! 4, 1000 * x ! 5), (x ! 6, 1000 * x ! 7)],
                Print_blank,
                Print_duties
                  [(''QsHC'', x ! 8 / 1000), (''QlVH'', x ! 9 / 1000),
                   (''QsTZ'', x ! 10 / 1000), (''QlTZ'', x ! 11 / 1000)],
                Print_UA (py_round UA)]"
proof -
  from assms obtain x0 x1 x2 x3 x4 x5 x6 x7 x8 x9 x10 x11 where
    "ModelECS psy_w inp =
       (report inp UA (psy_w (\<theta>_turb inp) (\<phi>_turb inp)) [x0, x1, x2, x3, x4, x5, x6, x7, x8, x9, x10, x11],
        Inr [x0, x1, x2, x3, x4, x5, x6, x7, x8, x9, x10, x11])"
    by (rule ModelECS_success)
  then show ?thesis
    by (simp add: report_def Let_def slice_12 incidence_def)
qed

theorem chart_path_witness:
  "derived scenario = Inr (2, 12000, 11500 / 11)
   \<and> nonsingular (coefficients scenario 2 (11500 / 11) (10 ^ 10) (10 ^ 10))
   \<and> (\<exists>x. snd (ModelECS psy_w0 scenario) = Inr x
          \<and> hd (fst (ModelECS psy_w0 scenario)) =
              ChartA [5, x ! 0, x ! 2, x ! 4, x ! 6]
                     [psy_w0 5 (9 / 10), x ! 1, x ! 3, x ! 5, x ! 7]
                     [[-1, 1, 0, 0, -1], [0, -1, 1, 0, 0], [0, 0, -1, 1, 0], [0, 0, 0, -1, 1]])"
  using chart_path [OF scenario_derived scenario_nonsingular, of psy_w0]
    scenario_derived scenario_nonsingular
  by (auto simp: scenario_def)

text \<open>
  C4, as amended. In exact arithmetic the solved mixing-box outlet is the average of the
  turbine-exit state and the zone-exit state with the weights \<open>\<alpha>\<close> and \<open>1 - \<alpha>\<close>; with
  \<open>\<alpha> = 1\<close> it is the turbine-exit state.
\<close>

theorem mixing_box_average:
  assumes "derived inp = Inr (m, QsZ, UA)"
    and "nonsingular (coefficients inp m UA (10 ^ 10) (10 ^ 10))"
  shows "\<exists>x. snd (ModelECS psy_w inp) = Inr x
           \<and> x ! 0 = \<alpha> inp * \<theta>_turb inp + (1 - \<alpha> inp) * x ! 6
           \<and> x ! 1 = \<alpha> inp * psy_w (\<theta>_turb inp) (\<phi>_turb inp) + (1 - \<alpha> inp) * x ! 7
           \<and> (\<alpha> inp = 1 \<longrightarrow>
                x ! 0 = \<theta>_turb inp \<and> x ! 1 = psy_w (\<theta>_turb inp) (\<phi>_turb inp))"
proof -
  from assms obtain x0 x1 x2 x3 x4 x5 x6 x7 x8 x9 x10 x11 where
    run: "ModelECS psy_w inp =
       (report inp UA (psy_w (\<theta>_turb inp) (\<phi>_turb inp)) [x0, x1, x2, x3, x4, x5, x6, x7, x8, x9, x10, x11],
        Inr [x0, x1, x2, x3, x4, x5, x6, x7, x8, x9, x10, x11])"
    and eq: "mat_vec (coefficients inp m UA (10 ^ 10) (10 ^ 10)) [x0, x1, x2, x3, x4, x5, x6, x7, x8, x9, x10, x11]
         = constants inp m UA (10 ^ 10) (10 ^ 10)
             (psy_w (\<theta>_turb inp) (\<phi>_turb inp)) (psy_w (\<theta>Isp inp) (\<phi>Isp inp))"
    by (rule ModelECS_success)
  from nonsingular_coefficients_D(1) [OF assms(2)] have m: "m \<noteq> 0" .
  from eq have
    "m * c * x0 - (1 - \<alpha> inp) * m * c * x6 = \<alpha> inp * m * c * \<theta>_turb inp"
    "m * l * x1 - (1 - \<alpha> inp) * m * l * x7 = \<alpha> inp * m * l * psy_w (\<theta>_turb inp) (\<phi>_turb inp)"
    by (simp_all add: mat_vec_coefficients constants_explicit)
  then have "m * c * x0 = m * c * (\<alpha> inp * \<theta>_turb inp + (1 - \<alpha> inp) * x6)"
    and "m * l * x1 = m * l * (\<alpha> inp * psy_w (\<theta>_turb inp) (\<phi>_turb inp) + (1 - \<alpha> inp) * x7)"
    by (simp_all add: algebra_simps)
  with m have "x0 = \<alpha> inp * \<theta>_turb inp + (1 - \<alpha> inp) * x6"
    and "x1 = \<alpha> inp * psy_w (\<theta>_turb inp) (\<phi>_turb inp) + (1 - \<alpha> inp) * x7"
    by (simp_all add: c_def l_def)
  with run show ?thesis by simp
qed

lemma no_recirculation_derived: "derived (scenario\<lparr>\<alpha> := 1\<rparr>) = Inr (1, 6000, 500)"
  by (simp add: derived_def scenario_def c_def Let_def)

lemma no_recirculation_nonsingular:
  "nonsingular (coefficients (scenario\<lparr>\<alpha> := 1\<rparr>) 1 500 (10 ^ 10) (10 ^ 10))"
  by (rule nonsingular_coefficients) (simp_all add: scenario_def c_def l_def)

theorem mixing_box_average_witness:
  "derived (scenario\<lparr>\<alpha> := 1\<rparr>) = Inr (1, 6000, 500)
   \<and> nonsingular (coefficients (scenario\<lparr>\<alpha> := 1\<rparr>) 1 500 (10 ^ 10) (10 ^ 10))
   \<and> \<alpha> (scenario\<lparr>\<alpha> := 1\<rparr>) = 1
   \<and> (\<exists>x. snd (ModelECS psy_w0 (scenario\<lparr>\<alpha> := 1\<rparr>)) = Inr x
          \<and> x ! 0 = 5 \<and> x ! 1 = psy_w0 5 (9 / 10))"
  using mixing_box_average [OF no_recirculation_derived no_recirculation_nonsingular, of psy_w0]
    no_recirculation_derived no_recirculation_nonsingular
  by (auto simp: scenario_def)

lemma quotient_within:
  fixes N D \<epsilon> :: real
  assumes "D \<noteq> 0"
  shows "\<bar>N / D\<bar> < \<epsilon> \<longleftrightarrow> \<bar>N\<bar> < \<epsilon> * \<bar>D\<bar>"
  using assms by (simp add: abs_divide pos_divide_less_eq)

text \<open>
  C3, as amended. With the gains \<open>Kt = Kw = 10\<^sup>1\<^sup>0\<close> the zone-exit state misses the
  setpoints by
  \<open>(QsZ + m_fresh c (\<theta>_turb - \<theta>Isp)) / (Kt + UA + m_fresh c)\<close> in temperature and by
  \<open>(Qla + m_fresh l (w_turb - wIsp)) / (Kw + m_fresh l)\<close> in humidity ratio, so each
  deviation is below \<open>\<epsilon>\<close> exactly when the load in the numerator is below \<open>\<epsilon>\<close> times the
  magnitude of the denominator.
\<close>

theorem setpoint_deviation:
  assumes "derived inp = Inr (m, QsZ, UA)"
    and "nonsingular (coefficients inp m UA (10 ^ 10) (10 ^ 10))"
  shows "\<exists>x. snd (ModelECS psy_w inp) = Inr x
           \<and> x ! 6 - \<theta>Isp inp =
               (QsZ + m_fresh inp * c * (\<theta>_turb inp - \<theta>Isp inp)) / (10 ^ 10 + UA + m_fresh inp * c)
           \<and> x ! 7 - psy_w (\<theta>Isp inp) (\<phi>Isp inp) =
               (Qla inp + m_fresh inp * l * (psy_w (\<theta>_turb inp) (\<phi>_turb inp) - psy_w (\<theta>Isp inp) (\<phi>Isp inp)))
                 / (10 ^ 10 + m_fresh inp * l)
           \<and> (\<bar>x ! 6 - \<theta>Isp inp\<bar> < \<epsilon> \<longleftrightarrow>
                \<bar>QsZ + m_fresh inp * c * (\<theta>_turb inp - \<theta>Isp inp)\<bar> < \<epsilon> * \<bar>10 ^ 10 + UA + m_fresh inp * c\<bar>)
           \<and> (\<bar>x ! 7 - psy_w (\<theta>Isp inp) (\<phi>Isp inp)\<bar> < \<epsilon> \<longleftrightarrow>
                \<bar>Qla inp + m_fresh inp * l * (psy_w (\<theta>_turb inp) (\<phi>_turb inp) - psy_w (\<theta>Isp inp) (\<phi>Isp inp))\<bar>
                  < \<epsilon> * \<bar>10 ^ 10 + m_fresh inp * l\<bar>)"
proof -
  let ?wt = "psy_w (\<theta>_turb inp) (\<phi>_turb inp)"
  let ?wi = "psy_w (\<theta>Isp inp) (\<phi>Isp inp)"
  let ?Dt = "10 ^ 10 + UA + m_fresh inp * c"
  let ?Dw = "10 ^ 10 + m_fresh inp * l"
  let ?Nt = "QsZ + m_fresh inp * c * (\<theta>_turb inp - \<theta>Isp inp)"
  let ?Nw = "Qla inp + m_fresh inp * l * (?wt - ?wi)"
  from assms obtain x0 x1 x2 x3 x4 x5 x6 x7 x8 x9 x10 x11 where
    run: "ModelECS psy_w inp =
       (report inp UA ?wt [x0, x1, x2, x3, x4, x5, x6, x7, x8, x9, x10, x11],
        Inr [x0, x1, x2, x3, x4, x5, x6, x7, x8, x9, x10, x11])"
    and eq: "mat_vec (coefficients inp m UA (10 ^ 10) (10 ^ 10)) [x0, x1, x2, x3, x4, x5, x6, x7, x8, x9, x10, x11]
         = constants inp m UA (10 ^ 10) (10 ^ 10) ?wt ?wi"
    by (rule ModelECS_success)
  note am = derived_InrD(3) [OF assms(1)] and ua = derived_InrD(4) [OF assms(1)]
  have amc: "\<alpha> inp * m * c = m_fresh inp * c" and aml: "\<alpha> inp * m * l = m_fresh inp * l"
    by (simp_all add: am)
  from nonsingular_coefficients_D(2,3) [OF assms(2)]
  have Dt: "?Dt \<noteq> 0" and Dw: "?Dw \<noteq> 0"
    unfolding amc aml by simp_all
  note keys = balance_keys [OF eq [unfolded constants_explicit], unfolded amc aml]
  from keys(1) ua have "(x6 - \<theta>Isp inp) * ?Dt = ?Nt"
    by (simp add: algebra_simps)
  with Dt have t: "x6 - \<theta>Isp inp = ?Nt / ?Dt"
    by (simp add: field_simps)
  from keys(2) have "(x7 - ?wi) * ?Dw = ?Nw"
    by (simp add: algebra_simps)
  with Dw have w: "x7 - ?wi = ?Nw / ?Dw"
    by (simp add: field_simps)
  have "\<bar>x6 - \<theta>Isp inp\<bar> < \<epsilon> \<longleftrightarrow> \<bar>?Nt\<bar> < \<epsilon> * \<bar>?Dt\<bar>"
    unfolding t by (rule quotient_within [OF Dt])
  moreover have "\<bar>x7 - ?wi\<bar> < \<epsilon> \<longleftrightarrow> \<bar>?Nw\<bar> < \<epsilon> * \<bar>?Dw\<bar>"
    unfolding w by (rule quotient_within [OF Dw])
  ultimately show ?thesis
    using run t w by simp
qed


lemma light_derived: "derived (scenario\<lparr>m_fresh := 1 / 10\<rparr>) = Inr (1 / 5, 1200, 700 / 11)"
  by (simp add: derived_def scenario_def c_def Let_def)

lemma light_nonsingular:
  "nonsingular (coefficients (scenario\<lparr>m_fresh := 1 / 10\<rparr>) (1 / 5) (700 / 11) (10 ^ 10) (10 ^ 10))"
  by (rule nonsingular_coefficients) (simp_all add: scenario_def c_def l_def)

theorem setpoint_deviation_witness:
  "derived (scenario\<lparr>m_fresh := 1 / 10\<rparr>) = Inr (1 / 5, 1200, 700 / 11)
   \<and> nonsingular (coefficients (scenario\<lparr>m_fresh := 1 / 10\<rparr>) (1 / 5) (700 / 11) (10 ^ 10) (10 ^ 10))
   \<and> (\<exists>x. snd (ModelECS psy_w0 (scenario\<lparr>m_fresh := 1 / 10\<rparr>)) = Inr x
          \<and> \<bar>x ! 6 - 24\<bar> < 1 / 10 ^ 6
          \<and> \<bar>x ! 7 - psy_w0 24 (1 / 2)\<bar> < 1 / 10 ^ 6)"
proof -
  from setpoint_deviation [OF light_derived light_nonsingular, of psy_w0 "1 / 10 ^ 6"]
  obtain x where "snd (ModelECS psy_w0 (scenario\<lparr>m_fresh := 1 / 10\<rparr>)) = Inr x"
    and "\<bar>x ! 6 - 24\<bar> < 1 / 10 ^ 6" and "\<bar>x ! 7 - psy_w0 24 (1 / 2)\<bar> < 1 / 10 ^ 6"
    by (auto simp: scenario_def c_def l_def psy_w0_def)
  with light_derived light_nonsingular show ?thesis by blast
qed

lemma heavy_derived: "derived (scenario\<lparr>m_fresh := 10\<rparr>) = Inr (20, 120000, 119500 / 11)"
  by (simp add: derived_def scenario_def c_def Let_def)

lemma heavy_nonsingular:
  "nonsingular (coefficients (scenario\<lparr>m_fresh := 10\<rparr>) 20 (119500 / 11) (10 ^ 10) (10 ^ 10))"
  by (rule nonsingular_coefficients) (simp_all add: scenario_def c_def l_def)

text \<open>
  C3, as stated, fails: with 10 kg/s of fresh air in the sample scenario the solved
  zone-exit temperature is \<open>754287068 / 31428637\<close>, about \<open>7 * 10\<^sup>-\<^sup>6\<close> below the setpoint
  of 24, and the humidity ratio misses its setpoint by more than \<open>10\<^sup>-\<^sup>5\<close>.
\<close>

theorem setpoint_tolerance_counterexample:
  "snd (ModelECS psy_w0 (scenario\<lparr>m_fresh := 10\<rparr>)) =
     Inr [911430253 / 62857274, 94817 / 11392000, 1131430253 / 62857274, 94817 / 11392000,
          1131430253 / 62857274, 2572369 / 222144000, 754287068 / 31428637, 65981 / 5696000,
          2200000000000 / 31428637, 14468750 / 89, 3771438830000 / 31428637, 200]
   \<and> \<not> (\<bar>754287068 / 31428637 - \<theta>Isp (scenario\<lparr>m_fresh := 10\<rparr>)\<bar> < 1 / 10 ^ 6
        \<and> \<bar>65981 / 5696000
             - psy_w0 (\<theta>Isp (scenario\<lparr>m_fresh := 10\<rparr>)) (\<phi>Isp (scenario\<lparr>m_fresh := 10\<rparr>))\<bar> < 1 / 10 ^ 6)"
proof -
  let ?inp = "scenario\<lparr>m_fresh := 10\<rparr>"
  let ?sol = "[911430253 / 62857274, 94817 / 11392000, 1131430253 / 62857274, 94817 / 11392000,
          1131430253 / 62857274, 2572369 / 222144000, 754287068 / 31428637, 65981 / 5696000,
          2200000000000 / 31428637, 14468750 / 89, 3771438830000 / 31428637, 200 :: real]"
  obtain x0 x1 x2 x3 x4 x5 x6 x7 x8 x9 x10 x11 where
    run: "ModelECS psy_w0 ?inp =
       (report ?inp (119500 / 11) (psy_w0 (\<theta>_turb ?inp) (\<phi>_turb ?inp))
          [x0, x1, x2, x3, x4, x5, x6, x7, x8, x9, x10, x11],
        Inr [x0, x1, x2, x3, x4, x5, x6, x7, x8, x9, x10, x11])"
    and uniq: "\<And>v. length v = 12 \<Longrightarrow>
           mat_vec (coefficients ?inp 20 (119500 / 11) (10 ^ 10) (10 ^ 10)) v
             = constants ?inp 20 (119500 / 11) (10 ^ 10) (10 ^ 10)
                 (psy_w0 (\<theta>_turb ?inp) (\<phi>_turb ?inp)) (psy_w0 (\<theta>Isp ?inp) (\<phi>Isp ?inp))
           \<Longrightarrow> v = [x0, x1, x2, x3, x4, x5, x6, x7, x8, x9, x10, x11]"
    using ModelECS_success [OF heavy_derived heavy_nonsingular, of psy_w0] by metis
  have "mat_vec (coefficients ?inp 20 (119500 / 11) (10 ^ 10) (10 ^ 10)) ?sol
          = constants ?inp 20 (119500 / 11) (10 ^ 10) (10 ^ 10)
              (psy_w0 (\<theta>_turb ?inp) (\<phi>_turb ?inp)) (psy_w0 (\<theta>Isp ?inp) (\<phi>Isp ?inp))"
    by (simp add: mat_vec_coefficients constants_explicit scenario_def c_def l_def psy_w0_def)
  from uniq [OF _ this] have "?sol = [x0, x1, x2, x3, x4, x5, x6, x7, x8, x9, x10, x11]"
    by simp
  with run have "snd (ModelECS psy_w0 ?inp) = Inr ?sol"
    by simp
  moreover have "\<not> \<bar>754287068 / 31428637 - \<theta>Isp ?inp\<bar> < 1 / 10 ^ 6"
    by (simp add: scenario_def)
  ultimately show ?thesis by blast
qed

section \<open>Failure leaves no output\<close>

lemma solve_singular:
  assumes "\<not> nonsingular A"
  shows "solve A b = Inl LinAlgError"
proof (cases "solve A b")
  case (Inl e)
  then show ?thesis by (cases e) (auto simp: solve_def split: if_splits option.splits)
next
  case (Inr x)
  from solve_Inr(4) [OF Inr] assms show ?thesis by simp
qed

lemma ModelECS_singular:
  assumes "derived inp = Inr (m, QsZ, UA)"
    and "\<not> nonsingular (coefficients inp m UA (10 ^ 10) (10 ^ 10))"
  shows "ModelECS psy_w inp = ([], Inl LinAlgError)"
  using assms(1) solve_singular [OF assms(2)]
  by (simp add: ModelECS_def Let_def)

lemma no_flow_derived: "derived (scenario\<lparr>m_fresh := 0\<rparr>) = Inr (0, 0, - 500 / 11)"
  by (simp add: derived_def scenario_def c_def Let_def)

lemma no_flow_singular:
  "\<not> nonsingular (coefficients (scenario\<lparr>m_fresh := 0\<rparr>) 0 (- 500 / 11) (10 ^ 10) (10 ^ 10))"
  using nonsingular_coefficients_D(1) by blast


text \<open>
  C7. When the routine ends in an error, raised by a division or by the linear solve, it
  has printed nothing and has not called the chart collaborator.
\<close>

theorem failure_is_silent:
  "snd (ModelECS psy_w inp) = Inl e \<Longrightarrow> fst (ModelECS psy_w inp) = []"
  by (auto simp: ModelECS_def Let_def split: sum.splits prod.splits)

theorem failure_is_silent_witness:
  "snd (ModelECS psy_w0 (scenario\<lparr>\<alpha> := 0\<rparr>)) = Inl ZeroDivisionError
   \<and> fst (ModelECS psy_w0 (scenario\<lparr>\<alpha> := 0\<rparr>)) = []
   \<and> snd (ModelECS psy_w0 (scenario\<lparr>m_fresh := 0\<rparr>)) = Inl LinAlgError
   \<and> fst (ModelECS psy_w0 (scenario\<lparr>m_fresh := 0\<rparr>)) = []"
proof -
  have h: "snd (ModelECS psy_w0 (scenario\<lparr>\<alpha> := 0\<rparr>)) = Inl ZeroDivisionError"
    by (simp add: ModelECS_def derived_def scenario_def)
  have s: "snd (ModelECS psy_w0 (scenario\<lparr>m_fresh := 0\<rparr>)) = Inl LinAlgError"
    by (simp add: ModelECS_singular [OF no_flow_derived no_flow_singular])
  from failure_is_silent [OF h] failure_is_silent [OF s] h s show ?thesis by simp
qed

section \<open>Rounding in the mixing box\<close>

lemma ilog2_numeral:
  "ilog2 (numeral k) y =
     (if y < 1 then ilog2 (pred_numeral k) (2 * y) - 1
      else if 2 \<le> y then ilog2 (pred_numeral k) (y / 2) + 1
      else 0)"
  by (simp add: numeral_eq_Suc)

lemmas fl_eval = fl_def rne_def pow2_def ilog2_numeral Let_def

lemma fl_one: "fl 1 = 1"
  by (simp add: fl_eval)

lemma fl_tenth: "fl (1 / 10) = 3602879701896397 / 36028797018963968"
  by (simp add: fl_eval)

lemma s64: "scenario64 = \<lparr>m_fresh = 378443106187477/35184372088832, \<alpha> = 1, \<theta>S = 18, \<theta>Isp = 24, \<phi>Isp = 1 / 2,
                 \<theta>_turb = 3825244933497815/281474976710656, \<phi>_turb = 8106479329266893/9007199254740992, \<theta>_ext = 35, Qsa = 500,
                 Qla = 200\<rparr>"
  by (simp add: scenario64_def fl_eval)

lemma d64: "derived_fl scenario64 = Inr (378443106187477 / 35184372088832, 64536, 6400756963296721 / 1099511627776)"
  by (simp add: s64 derived_fl_def fl_eval c_def)

lemma coefficients_fl_explicit:
  "coefficients_fl inp m UA Kt Kw =
    [[fl (m * c), 0, 0, 0, 0, 0, fl (fl (- fl (1 - \<alpha> inp) * m) * c), 0, 0, 0, 0, 0],
     [0, fl (m * l), 0, 0, 0, 0, 0, fl (fl (- fl (1 - \<alpha> inp) * m) * l), 0, 0, 0, 0],
     [fl (m * c), 0, fl (- m * c), 0, 0, 0, 0, 0, 1, 0, 0, 0],
     [0, fl (m * l), 0, fl (- m * l), 0, 0, 0, 0, 0, 0, 0, 0],
     [0, 0, fl (m * c), 0, fl (- m * c), 0, 0, 0, 0, 0, 0, 0],
     [0, 0, 0, fl (m * l), 0, fl (- m * l), 0, 0, 0, 1, 0, 0],
     [0, 0, 0, 0, fl (m * c), 0, fl (- m * c), 0, 0, 0, 1, 0],
     [0, 0, 0, 0, 0, fl (m * l), 0, fl (- m * l), 0, 0, 0, 1],
     [0, 0, 0, 0, 0, 0, UA, 0, 0, 0, 1, 0],
     [0, 0, 0, 0, 0, 0, 0, 0, 0, 0, 0, 1],
     [0, 0, 0, 0, 0, 0, Kt, 0, 1, 0, 0, 0],
     [0, 0, 0, 0, 0, 0, 0, Kw, 0, 1, 0, 0]]"
  unfolding coefficients_fl_def zeros2_def zeros_def
  by (simp add: set2_def eval_nat_numeral)

lemma constants_fl_explicit:
  "constants_fl inp m UA Kt Kw w_turb wIsp =
    [fl (fl (fl (\<alpha> inp * m) * c) * \<theta>_turb inp), fl (fl (fl (\<alpha> inp * m) * l) * w_turb),
     0, 0, 0, 0, 0, 0,
     fl (fl (UA * \<theta>_ext inp) + Qsa inp), Qla inp, fl (Kt * \<theta>Isp inp), fl (Kw * wIsp)]"
  unfolding constants_fl_def zeros_def
  by (simp add: eval_nat_numeral)


lemma gauss64:
  "gauss_fl
     [([10756, 0, 0, 0, 0, 0, 0, 0, 0, 0, 0, 0], 5022501770593567 / 34359738368),
      ([0, 26846976, 0, 0, 0, 0, 0, 0, 0, 0, 0, 0], 4705296763814947 / 17179869184),
      ([10756, 0, - 10756, 0, 0, 0, 0, 0, 1, 0, 0, 0], 0),
      ([0, 26846976, 0, - 26846976, 0, 0, 0, 0, 0, 0, 0, 0], 0),
      ([0, 0, 10756, 0, - 10756, 0, 0, 0, 0, 0, 0, 0], 0),
      ([0, 0, 0, 26846976, 0, - 26846976, 0, 0, 0, 1, 0, 0], 0),
      ([0, 0, 0, 0, 10756, 0, - 10756, 0, 0, 0, 1, 0], 0),
      ([0, 0, 0, 0, 0, 26846976, 0, - 26846976, 0, 0, 0, 1], 0),
      ([0, 0, 0, 0, 0, 0, 6400756963296721 / 1099511627776, 0, 0, 0, 1, 0], 7018007797789789 / 34359738368),
      ([0, 0, 0, 0, 0, 0, 0, 0, 0, 0, 0, 1], 200),
      ([0, 0, 0, 0, 0, 0, 10000000000, 0, 1, 0, 0, 0], 240000000000),
      ([0, 0, 0, 0, 0, 0, 0, 10000000000, 0, 1, 0, 0], 7784628223999999 / 67108864)]
   = Some [7650489866995631 / 562949953421312, 5880869424595481 / 576460752303423488, 2533273761514041 / 140737488355328, 5880869424595481 / 576460752303423488, 2533273761514041 / 140737488355328, 835062941555919 / 72057594037927936, 3377699052955339 / 140737488355328, 6684797950949483 / 576460752303423488, 6519263014154075 / 137438953472, 2559156143937179 / 68719476736, 8869764096428323 / 137438953472, 200]"
  by (simp add: pivot_rows_def swap_rows_def idamax.simps lead_def eliminate_fl_def dot_fl_def fl_eval)


lemma f64:
  "\<theta>_turb scenario64 = 3825244933497815 / 281474976710656"
  "\<phi>_turb scenario64 = 8106479329266893 / 9007199254740992"
  "\<theta>Isp scenario64 = 24" "\<phi>Isp scenario64 = 1 / 2" "\<alpha> scenario64 = 1"
  by (simp_all add: s64)

lemma psy64:
  "psy_w64 (3825244933497815 / 281474976710656) (8106479329266893 / 9007199254740992) = 2940434712297741 / 288230376151711744"
  "psy_w64 24 (1 / 2) = 208967022709991 / 18014398509481984"
  by (simp_all add: psy_w64_def psy_w0_def fl_eval)

lemma sys64:
  "zip (coefficients_fl scenario64 (378443106187477 / 35184372088832)
          (6400756963296721 / 1099511627776) 10000000000 10000000000)
       (constants_fl scenario64 (378443106187477 / 35184372088832)
          (6400756963296721 / 1099511627776) 10000000000 10000000000
          (2940434712297741 / 288230376151711744) (208967022709991 / 18014398509481984))
   = [([10756, 0, 0, 0, 0, 0, 0, 0, 0, 0, 0, 0], 5022501770593567 / 34359738368),
      ([0, 26846976, 0, 0, 0, 0, 0, 0, 0, 0, 0, 0], 4705296763814947 / 17179869184),
      ([10756, 0, - 10756, 0, 0, 0, 0, 0, 1, 0, 0, 0], 0),
      ([0, 26846976, 0, - 26846976, 0, 0, 0, 0, 0, 0, 0, 0], 0),
      ([0, 0, 10756, 0, - 10756, 0, 0, 0, 0, 0, 0, 0], 0),
      ([0, 0, 0, 26846976, 0, - 26846976, 0, 0, 0, 1, 0, 0], 0),
      ([0, 0, 0, 0, 10756, 0, - 10756, 0, 0, 0, 1, 0], 0),
      ([0, 0, 0, 0, 0, 26846976, 0, - 26846976, 0, 0, 0, 1], 0),
      ([0, 0, 0, 0, 0, 0, 6400756963296721 / 1099511627776, 0, 0, 0, 1, 0], 7018007797789789 / 34359738368),
      ([0, 0, 0, 0, 0, 0, 0, 0, 0, 0, 0, 1], 200),
      ([0, 0, 0, 0, 0, 0, 10000000000, 0, 1, 0, 0, 0], 240000000000),
      ([0, 0, 0, 0, 0, 0, 0, 10000000000, 0, 1, 0, 0], 7784628223999999 / 67108864)]"
  by (simp add: coefficients_fl_explicit constants_fl_explicit s64 c_def l_def fl_eval)

lemma run64:
  "ModelECS_fl psy_w64 scenario64 = Inr [7650489866995631 / 562949953421312, 5880869424595481 / 576460752303423488, 2533273761514041 / 140737488355328, 5880869424595481 / 576460752303423488, 2533273761514041 / 140737488355328, 835062941555919 / 72057594037927936, 3377699052955339 / 140737488355328, 6684797950949483 / 576460752303423488, 6519263014154075 / 137438953472, 2559156143937179 / 68719476736, 8869764096428323 / 137438953472, 200]"
proof -
  have len: "\<not> ((\<exists>row \<in> set (coefficients_fl scenario64 (378443106187477 / 35184372088832)
                    (6400756963296721 / 1099511627776) 10000000000 10000000000).
                 length row \<noteq> length (coefficients_fl scenario64 (378443106187477 / 35184372088832)
                    (6400756963296721 / 1099511627776) 10000000000 10000000000))
             \<or> length (constants_fl scenario64 (378443106187477 / 35184372088832)
                    (6400756963296721 / 1099511627776) 10000000000 10000000000
                    (2940434712297741 / 288230376151711744) (208967022709991 / 18014398509481984))
               \<noteq> length (coefficients_fl scenario64 (378443106187477 / 35184372088832)
                    (6400756963296721 / 1099511627776) 10000000000 10000000000))"
    by (simp add: coefficients_fl_explicit constants_fl_explicit)
  have "ModelECS_fl psy_w64 scenario64 =
          solve_fl (coefficients_fl scenario64 (378443106187477 / 35184372088832)
                      (6400756963296721 / 1099511627776) 10000000000 10000000000)
                   (constants_fl scenario64 (378443106187477 / 35184372088832)
                      (6400756963296721 / 1099511627776) 10000000000 10000000000
                      (2940434712297741 / 288230376151711744) (208967022709991 / 18014398509481984))"
    by (simp add: ModelECS_fl_def d64 Let_def f64 psy64)
  also have "\<dots> = Inr [7650489866995631 / 562949953421312, 5880869424595481 / 576460752303423488, 2533273761514041 / 140737488355328, 5880869424595481 / 576460752303423488, 2533273761514041 / 140737488355328, 835062941555919 / 72057594037927936, 3377699052955339 / 140737488355328, 6684797950949483 / 576460752303423488, 6519263014154075 / 137438953472, 2559156143937179 / 68719476736, 8869764096428323 / 137438953472, 200]"
    unfolding solve_fl_def if_not_P [OF len] sys64 gauss64 by simp
  finally show ?thesis .
qed

text \<open>
  C4, as stated, fails: without recirculation (\<open>\<alpha> = 1\<close>), at 10.756 kg/s of fresh air and
  a turbine-exit temperature of 13.59, the routine computing in binary64 returns
  \<open>x\<^sub>0 = 7650489866995631 / 2\<^sup>4\<^sup>9\<close> (printed 13.590000000000002), one unit in the last
  place above the turbine-exit temperature \<open>7650489866995630 / 2\<^sup>4\<^sup>9\<close>: the product
  \<open>m c \<theta>_turb\<close> of row 0 is rounded, and so is the quotient that recovers \<open>x\<^sub>0\<close>.
\<close>

theorem mixing_box_rounding_counterexample:
  "\<alpha> scenario64 = 1
   \<and> \<theta>_turb scenario64 = 3825244933497815 / 281474976710656
   \<and> ModelECS_fl psy_w64 scenario64 = Inr [7650489866995631 / 562949953421312, 5880869424595481 / 576460752303423488, 2533273761514041 / 140737488355328, 5880869424595481 / 576460752303423488, 2533273761514041 / 140737488355328, 835062941555919 / 72057594037927936, 3377699052955339 / 140737488355328, 6684797950949483 / 576460752303423488, 6519263014154075 / 137438953472, 2559156143937179 / 68719476736, 8869764096428323 / 137438953472, 200]
   \<and> \<not> ([7650489866995631 / 562949953421312, 5880869424595481 / 576460752303423488, 2533273761514041 / 140737488355328, 5880869424595481 / 576460752303423488, 2533273761514041 / 140737488355328, 835062941555919 / 72057594037927936, 3377699052955339 / 140737488355328, 6684797950949483 / 576460752303423488, 6519263014154075 / 137438953472, 2559156143937179 / 68719476736, 8869764096428323 / 137438953472, 200] ! 0 = \<theta>_turb scenario64)"
  by (simp add: run64 f64)

end
